theory Spec2Isabelle
  imports Main "HOL-Library.AList"
begin

section \<open>The user store of \<open>web/src/store/user.ts\<close>\<close>

text \<open>
  The module keeps one \<open>LocalState\<close> object and a set of asynchronous operations that
  call a remote service and patch that object. The embedding below is sequential: one
  operation runs from its call to its completion, and the state passed in is the state
  the operation sees both before and after its \<open>await\<close>.

  \<^item> A plain JavaScript object used as a dictionary (\<open>Record<string, V>\<close>) is an
    association list in insertion order: \<open>o[k]\<close> is \<open>map_of o k\<close>, the assignment
    \<open>o[k] = v\<close> is \<open>AList.update k v o\<close> (the value is replaced where the key stands,
    a new key goes to the end), \<open>delete o[k]\<close> is \<open>AList.delete k o\<close>,
    \<open>Object.keys\<close> is \<open>map fst\<close> and \<open>Object.values\<close> is \<open>map snd\<close>. The keys
    of the account and statistics maps are resource names assigned by the server. The
    accumulator of the getter \<open>tagCount\<close> is keyed by tags, which users write, and
    is modelled with the members it inherits from \<open>Object.prototype\<close>.
  \<^item> A value thrown by a collaborator or by the module is a value of type \<open>thrown\<close>;
    an operation returns \<open>Inl\<close> of it, the new state and the remote calls it issued,
    in the order it issued them.
  \<^item> \<open>state.setPartial({f: v})\<close> is \<open>Object.assign\<close> on the state: the record update
    \<open>state\<lparr>f := v\<rparr>\<close>.
  \<^item> Counts are JavaScript numbers holding integers; they are \<open>int\<close> here, which
    agrees with the doubles of the code while every sum stays below \<open>2^53\<close> in
    absolute value.
\<close>

subsection \<open>Messages\<close>

text \<open>
  The generated message types are not part of the module. \<open>User\<close>, \<open>Inbox\<close>,
  \<open>Shortcut\<close> and \<open>UserStats\<close> carry the fields the module reads and one field for
  the rest of the message. \<open>UserSetting\<close> and the \<open>Partial<...>\<close> arguments are
  objects whose fields may be missing: association lists from field name to value.
\<close>

record User =
  user_name :: string
  username :: string
  user_rest :: string

record Inbox =
  inbox_name :: string
  inbox_rest :: string

record Shortcut =
  shortcut_name :: string
  shortcut_rest :: string

record UserStats =
  stats_name :: string
  stats_tagCount :: "(string \<times> int) list"

type_synonym fields = "(string \<times> string) list"

type_synonym UserSetting = fields

datatype thrown = Error string | RpcError string

subsection \<open>Remote collaborators\<close>

text \<open>
  Each client method is a function from its request to either the value it throws or
  its response. \<open>rpc\<close> names a call together with its request, for the log of calls
  an operation issues.
\<close>

record remote =
  userServiceClient_getUser :: "string \<Rightarrow> thrown + User"
  userServiceClient_searchUsers :: "string \<Rightarrow> nat \<Rightarrow> thrown + User list"
  userServiceClient_listUsers :: "thrown + User list"
  userServiceClient_updateUser :: "fields \<Rightarrow> string list \<Rightarrow> thrown + User"
  userServiceClient_deleteUser :: "string \<Rightarrow> thrown + unit"
  userServiceClient_updateUserSetting :: "fields \<Rightarrow> string list \<Rightarrow> thrown + fields"
  userServiceClient_listAllUserStats :: "thrown + UserStats list"
  userServiceClient_getUserStats :: "string \<Rightarrow> thrown + UserStats"
  userServiceClient_getUserSetting :: "string \<Rightarrow> thrown + fields"
  shortcutServiceClient_listShortcuts :: "string \<Rightarrow> thrown + Shortcut list"
  inboxServiceClient_listInboxes :: "string \<Rightarrow> thrown + Inbox list"
  inboxServiceClient_updateInbox :: "fields \<Rightarrow> string list \<Rightarrow> thrown + Inbox"
  inboxServiceClient_deleteInbox :: "string \<Rightarrow> thrown + unit"
  authServiceClient_getCurrentSession :: "thrown + User option"

datatype rpc =
    GetUser string
  | SearchUsers string nat
  | ListUsers
  | UpdateUser fields "string list"
  | DeleteUser string
  | UpdateUserSetting fields "string list"
  | ListAllUserStats
  | GetUserStats string
  | GetUserSetting string
  | ListShortcuts string
  | ListInboxes string
  | UpdateInbox fields "string list"
  | DeleteInbox string
  | GetCurrentSession

subsection \<open>Object spread and truthiness\<close>

text \<open>\<open>{...a, ...b}\<close>: the fields of \<open>a\<close>, then each field of \<open>b\<close> assigned in turn.\<close>

definition spread :: "('k \<times> 'v) list \<Rightarrow> ('k \<times> 'v) list \<Rightarrow> ('k \<times> 'v) list" where
  "spread a b = fold (\<lambda>(k, v). AList.update k v) b a"

text \<open>\<open>!x\<close> for \<open>x?: string\<close>: \<open>undefined\<close> and the empty string are falsy.\<close>

definition falsy :: "string option \<Rightarrow> bool" where
  "falsy x = (case x of None \<Rightarrow> True | Some str \<Rightarrow> str = [])"

subsection \<open>\<open>LocalState\<close>\<close>

record LocalState =
  currentUser :: "string option"
  userSetting :: "UserSetting option"
  shortcuts :: "Shortcut list"
  inboxes :: "Inbox list"
  userMapByName :: "(string \<times> User) list"
  userStatsByName :: "(string \<times> UserStats) list"
  statsStateId :: string

text \<open>The state \<open>new LocalState()\<close> builds, with the identifier \<open>uniqueId()\<close> returned.\<close>

definition new_LocalState :: "string \<Rightarrow> LocalState" where
  "new_LocalState uid =
     \<lparr>currentUser = None, userSetting = None, shortcuts = [], inboxes = [],
      userMapByName = [], userStatsByName = [], statsStateId = uid\<rparr>"

text \<open>
  The getter \<open>tagCount\<close> accumulates into a plain object \<open>{}\<close>. A field of it holds
  a number, or a string once \<open>+\<close> has concatenated. Reading \<open>tagCount[tag]\<close> finds
  an own field, or else a member inherited from \<open>Object.prototype\<close>, or else
  \<open>undefined\<close>.
\<close>

datatype jsval = Num int | Str string

text \<open>
  The members of \<open>Object.prototype\<close>, each with the string its value becomes as an
  operand of \<open>+\<close> (as V8 prints it): eleven functions and the accessor
  \<open>__proto__\<close>, whose value is \<open>Object.prototype\<close> itself.
\<close>

definition Object_prototype :: "(string \<times> string) list" where
  "Object_prototype =
     [(''constructor'', ''function Object() { [native code] }''),
      (''__defineGetter__'', ''function __defineGetter__() { [native code] }''),
      (''__defineSetter__'', ''function __defineSetter__() { [native code] }''),
      (''hasOwnProperty'', ''function hasOwnProperty() { [native code] }''),
      (''__lookupGetter__'', ''function __lookupGetter__() { [native code] }''),
      (''__lookupSetter__'', ''function __lookupSetter__() { [native code] }''),
      (''isPrototypeOf'', ''function isPrototypeOf() { [native code] }''),
      (''propertyIsEnumerable'', ''function propertyIsEnumerable() { [native code] }''),
      (''toString'', ''function toString() { [native code] }''),
      (''valueOf'', ''function valueOf() { [native code] }''),
      (''__proto__'', ''[object Object]''),
      (''toLocaleString'', ''function toLocaleString() { [native code] }'')]"

datatype property = Own jsval | Inherited string | Undefined

definition get_property :: "(string \<times> jsval) list \<Rightarrow> string \<Rightarrow> property" where
  "get_property obj key =
     (case map_of obj key of
        Some v \<Rightarrow> Own v
      | None \<Rightarrow>
          (case map_of Object_prototype key of
             Some str \<Rightarrow> Inherited str
           | None \<Rightarrow> Undefined))"

text \<open>The decimal string of an integer, as \<open>+\<close> appends it to a string.\<close>

function show_nat :: "nat \<Rightarrow> string" where
  "show_nat n =
     (if n < 10 then [''0123456789'' ! n]
      else show_nat (n div 10) @ [''0123456789'' ! (n mod 10)])"
  by pat_completeness auto
termination
  by (relation "measure (\<lambda>n. n)") auto

declare show_nat.simps [simp del]

definition show_int :: "int \<Rightarrow> string" where
  "show_int i = (if i < 0 then CHR ''-'' # show_nat (nat (- i)) else show_nat (nat i))"

text \<open>
  \<open>(x || 0) + n\<close> for the value \<open>x\<close> read from the accumulator: zero, the empty
  string and \<open>undefined\<close> are falsy; a number adds; a string, or an inherited member
  converted to its string, concatenates.
\<close>

definition or0_plus :: "property \<Rightarrow> int \<Rightarrow> jsval" where
  "or0_plus x n =
     (case x of
        Own (Num c) \<Rightarrow> Num ((if c = 0 then 0 else c) + n)
      | Own (Str str) \<Rightarrow> (if str = [] then Num (0 + n) else Str (str @ show_int n))
      | Inherited str \<Rightarrow> Str (str @ show_int n)
      | Undefined \<Rightarrow> Num (0 + n))"

text \<open>
  \<open>obj[key] = v\<close> for a number or string \<open>v\<close>: the inherited setter of
  \<open>__proto__\<close> ignores such a value and no field is created; any other key becomes
  or stays an own field.
\<close>

definition set_property ::
  "string \<Rightarrow> jsval \<Rightarrow> (string \<times> jsval) list \<Rightarrow> (string \<times> jsval) list" where
  "set_property key v obj =
     (if key = ''__proto__'' \<and> map_of obj key = None then obj else AList.update key v obj)"

text \<open>
  The inner loop runs over \<open>Object.keys(stats.tagCount)\<close>, so \<open>stats.tagCount[tag]\<close>
  is always an own field of that object.
\<close>

definition tagCount_add ::
  "(string \<times> int) list \<Rightarrow> string \<Rightarrow> (string \<times> jsval) list \<Rightarrow> (string \<times> jsval) list" where
  "tagCount_add stats_tc tag acc =
     set_property tag (or0_plus (get_property acc tag) (the (map_of stats_tc tag))) acc"

definition tagCount_stats :: "UserStats \<Rightarrow> (string \<times> jsval) list \<Rightarrow> (string \<times> jsval) list" where
  "tagCount_stats stats acc =
     fold (tagCount_add (stats_tagCount stats)) (map fst (stats_tagCount stats)) acc"

definition tagCount :: "LocalState \<Rightarrow> (string \<times> jsval) list" where
  "tagCount state = fold tagCount_stats (map snd (userStatsByName state)) []"

text \<open>The number a field of the aggregate holds, and 0 where there is no field.\<close>

definition num_of :: "jsval option \<Rightarrow> int" where
  "num_of x = (case x of Some (Num c) \<Rightarrow> c | _ \<Rightarrow> 0)"

definition currentUserStats :: "LocalState \<Rightarrow> UserStats option" where
  "currentUserStats state =
     (case currentUser state of
        None \<Rightarrow> None
      | Some cu \<Rightarrow> if cu = [] then None else map_of (userStatsByName state) cu)"

subsection \<open>The operations of \<open>userStore\<close>\<close>

type_synonym 'a outcome = "(thrown + 'a) \<times> LocalState \<times> rpc list"

definition getOrFetchUserByName :: "remote \<Rightarrow> LocalState \<Rightarrow> string \<Rightarrow> User outcome" where
  "getOrFetchUserByName r state name =
     (let userMap = userMapByName state in
      case map_of userMap name of
        Some cached \<Rightarrow> (Inr cached, state, [])
      | None \<Rightarrow>
          (case userServiceClient_getUser r name of
             Inl e \<Rightarrow> (Inl e, state, [GetUser name])
           | Inr user \<Rightarrow>
               (Inr user,
                state\<lparr>userMapByName := AList.update name user userMap\<rparr>,
                [GetUser name])))"

text \<open>The \<open>for ... in\<close> scan of the cache: the first key whose user has the username.\<close>

definition cached_by_username :: "(string \<times> User) list \<Rightarrow> string \<Rightarrow> User option" where
  "cached_by_username userMap uname =
     (case List.find
             (\<lambda>name. case map_of userMap name of
                        None \<Rightarrow> False
                      | Some u \<Rightarrow> username u = uname)
             (map fst userMap) of
        None \<Rightarrow> None
      | Some name \<Rightarrow> map_of userMap name)"

definition getOrFetchUserByUsername :: "remote \<Rightarrow> LocalState \<Rightarrow> string \<Rightarrow> User outcome" where
  "getOrFetchUserByUsername r state uname =
     (let userMap = userMapByName state in
      case cached_by_username userMap uname of
        Some cached \<Rightarrow> (Inr cached, state, [])
      | None \<Rightarrow>
          (case userServiceClient_searchUsers r uname 10 of
             Inl e \<Rightarrow> (Inl e, state, [SearchUsers uname 10])
           | Inr users \<Rightarrow>
               (case List.find (\<lambda>u. username u = uname) users of
                  None \<Rightarrow>
                    (Inl (Error (''User with username '' @ uname @ '' not found'')),
                     state, [SearchUsers uname 10])
                | Some user \<Rightarrow>
                    (Inr user,
                     state\<lparr>userMapByName := AList.update (user_name user) user userMap\<rparr>,
                     [SearchUsers uname 10]))))"

definition getUserByName :: "LocalState \<Rightarrow> string \<Rightarrow> User option" where
  "getUserByName state name = map_of (userMapByName state) name"

definition fetchUsers :: "remote \<Rightarrow> LocalState \<Rightarrow> (User list) outcome" where
  "fetchUsers r state =
     (case userServiceClient_listUsers r of
        Inl e \<Rightarrow> (Inl e, state, [ListUsers])
      | Inr users \<Rightarrow>
          (let userMap = fold (\<lambda>user m. AList.update (user_name user) user m)
                              users (userMapByName state)
           in (Inr users, state\<lparr>userMapByName := userMap\<rparr>, [ListUsers])))"

definition updateUser :: "remote \<Rightarrow> LocalState \<Rightarrow> fields \<Rightarrow> string list \<Rightarrow> unit outcome" where
  "updateUser r state user updateMask =
     (case userServiceClient_updateUser r user updateMask of
        Inl e \<Rightarrow> (Inl e, state, [UpdateUser user updateMask])
      | Inr updatedUser \<Rightarrow>
          (Inr (),
           state\<lparr>userMapByName :=
                   AList.update (user_name updatedUser) updatedUser (userMapByName state)\<rparr>,
           [UpdateUser user updateMask]))"

definition deleteUser :: "remote \<Rightarrow> LocalState \<Rightarrow> string \<Rightarrow> unit outcome" where
  "deleteUser r state name =
     (case userServiceClient_deleteUser r name of
        Inl e \<Rightarrow> (Inl e, state, [DeleteUser name])
      | Inr _ \<Rightarrow>
          (let userMap = AList.delete name (userMapByName state)
           in (Inr (), state\<lparr>userMapByName := userMap\<rparr>, [DeleteUser name])))"

text \<open>
  \<open>UserSetting.fromPartial\<close> belongs to the generated message code; it is the
  parameter \<open>fromPartial\<close>.
\<close>

definition updateUserSetting ::
  "remote \<Rightarrow> (fields \<Rightarrow> UserSetting) \<Rightarrow> LocalState \<Rightarrow> fields \<Rightarrow> string list \<Rightarrow> unit outcome" where
  "updateUserSetting r fromPartial state setting updateMask =
     (if falsy (currentUser state) then (Inl (Error ''No current user''), state, [])
      else
        (let settingWithName = AList.update ''name'' (the (currentUser state)) setting in
         case userServiceClient_updateUserSetting r settingWithName updateMask of
           Inl e \<Rightarrow> (Inl e, state, [UpdateUserSetting settingWithName updateMask])
         | Inr updatedUserSetting \<Rightarrow>
             (Inr (),
              state\<lparr>userSetting :=
                Some (fromPartial
                  (spread (spread [] (case userSetting state of None \<Rightarrow> [] | Some us \<Rightarrow> us))
                          updatedUserSetting))\<rparr>,
              [UpdateUserSetting settingWithName updateMask])))"

definition fetchShortcuts :: "remote \<Rightarrow> LocalState \<Rightarrow> unit outcome" where
  "fetchShortcuts r state =
     (if falsy (currentUser state) then (Inr (), state, [])
      else
        (let parent = the (currentUser state) in
         case shortcutServiceClient_listShortcuts r parent of
           Inl e \<Rightarrow> (Inl e, state, [ListShortcuts parent])
         | Inr shortcuts' \<Rightarrow> (Inr (), state\<lparr>shortcuts := shortcuts'\<rparr>, [ListShortcuts parent])))"

definition fetchInboxes :: "remote \<Rightarrow> LocalState \<Rightarrow> unit outcome" where
  "fetchInboxes r state =
     (if falsy (currentUser state) then (Inl (Error ''No current user available''), state, [])
      else
        (let parent = the (currentUser state) in
         case inboxServiceClient_listInboxes r parent of
           Inl e \<Rightarrow> (Inl e, state, [ListInboxes parent])
         | Inr inboxes' \<Rightarrow> (Inr (), state\<lparr>inboxes := inboxes'\<rparr>, [ListInboxes parent])))"

definition updateInbox :: "remote \<Rightarrow> LocalState \<Rightarrow> fields \<Rightarrow> string list \<Rightarrow> Inbox outcome" where
  "updateInbox r state inbox updateMask =
     (case inboxServiceClient_updateInbox r inbox updateMask of
        Inl e \<Rightarrow> (Inl e, state, [UpdateInbox inbox updateMask])
      | Inr updatedInbox \<Rightarrow>
          (Inr updatedInbox,
           state\<lparr>inboxes :=
                   map (\<lambda>i. if inbox_name i = inbox_name updatedInbox then updatedInbox else i)
                       (inboxes state)\<rparr>,
           [UpdateInbox inbox updateMask]))"

definition deleteInbox :: "remote \<Rightarrow> LocalState \<Rightarrow> string \<Rightarrow> unit outcome" where
  "deleteInbox r state name =
     (case inboxServiceClient_deleteInbox r name of
        Inl e \<Rightarrow> (Inl e, state, [DeleteInbox name])
      | Inr _ \<Rightarrow>
          (Inr (),
           state\<lparr>inboxes := filter (\<lambda>i. inbox_name i \<noteq> name) (inboxes state)\<rparr>,
           [DeleteInbox name]))"

definition fetchUserStats :: "remote \<Rightarrow> LocalState \<Rightarrow> string option \<Rightarrow> unit outcome" where
  "fetchUserStats r state user =
     (if falsy user then
        (case userServiceClient_listAllUserStats r of
           Inl e \<Rightarrow> (Inl e, state, [ListAllUserStats])
         | Inr userStats \<Rightarrow>
             (let userStatsByName' =
                    fold (\<lambda>stats m. AList.update (stats_name stats) stats m) userStats []
              in (Inr (),
                  state\<lparr>userStatsByName := spread (spread [] (userStatsByName state))
                                                    userStatsByName'\<rparr>,
                  [ListAllUserStats])))
      else
        (case userServiceClient_getUserStats r (the user) of
           Inl e \<Rightarrow> (Inl e, state, [GetUserStats (the user)])
         | Inr userStats \<Rightarrow>
             (let userStatsByName' = AList.update (the user) userStats []
              in (Inr (),
                  state\<lparr>userStatsByName := spread (spread [] (userStatsByName state))
                                                    userStatsByName'\<rparr>,
                  [GetUserStats (the user)]))))"

definition setStatsStateId :: "LocalState \<Rightarrow> string \<Rightarrow> LocalState" where
  "setStatsStateId state ident = state\<lparr>statsStateId := ident\<rparr>"

subsection \<open>Session bootstrap\<close>

text \<open>
  \<open>initialUserStore\<close> patches two stores: the user store's state and, through
  \<open>workspaceStore.state.setPartial\<close>, the workspace store. The second is a
  collaborator; the model returns the list of patches sent to it, each an object from
  field name to the value assigned (\<open>None\<close> for \<open>undefined\<close>).
  \<open>findNearestMatchedLanguage\<close> and \<open>navigator.language\<close> are parameters.
\<close>

type_synonym workspace_patch = "(string \<times> string option) list"

definition locale_fallback :: "(string \<Rightarrow> string) \<Rightarrow> string \<Rightarrow> workspace_patch list" where
  "locale_fallback findNearestMatchedLanguage navigator_language =
     [[(''locale'', Some (findNearestMatchedLanguage navigator_language))]]"

definition initialUserStore ::
  "remote \<Rightarrow> (fields \<Rightarrow> UserSetting) \<Rightarrow> (string \<Rightarrow> string) \<Rightarrow> string \<Rightarrow> LocalState
     \<Rightarrow> LocalState \<times> workspace_patch list \<times> rpc list" where
  "initialUserStore r fromPartial findNearestMatchedLanguage navigator_language state =
     (case authServiceClient_getCurrentSession r of
        Inl e \<Rightarrow>
          (state, locale_fallback findNearestMatchedLanguage navigator_language,
           [GetCurrentSession])
      | Inr None \<Rightarrow>
          (state\<lparr>currentUser := None, userSetting := None, userMapByName := []\<rparr>,
           [], [GetCurrentSession])
      | Inr (Some cu) \<Rightarrow>
          (case userServiceClient_getUserSetting r (user_name cu) of
             Inl e \<Rightarrow>
               (state, locale_fallback findNearestMatchedLanguage navigator_language,
                [GetCurrentSession, GetUserSetting (user_name cu)])
           | Inr us \<Rightarrow>
               (state\<lparr>currentUser := Some (user_name cu),
                      userSetting := Some (fromPartial (spread [] us)),
                      userMapByName := AList.update (user_name cu) cu []\<rparr>,
                [[(''locale'', map_of us ''locale''),
                  (''appearance'', map_of us ''appearance'')]],
                [GetCurrentSession, GetUserSetting (user_name cu)])))"

subsection \<open>Concrete states and collaborators\<close>

text \<open>Inputs at which the theorems below are evaluated.\<close>

definition alice :: User where
  "alice = \<lparr>user_name = ''users/1'', username = ''alice'', user_rest = ''Alice''\<rparr>"

definition bob :: User where
  "bob = \<lparr>user_name = ''users/2'', username = ''bob'', user_rest = ''Bob''\<rparr>"

definition alicia :: User where
  "alicia = \<lparr>user_name = ''users/7'', username = ''alicia'', user_rest = ''Alicia''\<rparr>"

definition stats_alice :: UserStats where
  "stats_alice = \<lparr>stats_name = ''users/1'', stats_tagCount = [(''work'', 2), (''home'', 1)]\<rparr>"

definition stats_bob :: UserStats where
  "stats_bob = \<lparr>stats_name = ''users/2'', stats_tagCount = [(''work'', 3), (''travel'', 4)]\<rparr>"

definition stats_constructor_alice :: UserStats where
  "stats_constructor_alice =
     \<lparr>stats_name = ''users/1'', stats_tagCount = [(''constructor'', 2)]\<rparr>"

definition stats_constructor_bob :: UserStats where
  "stats_constructor_bob =
     \<lparr>stats_name = ''users/2'', stats_tagCount = [(''constructor'', 3)]\<rparr>"

definition constructor_tag_state :: LocalState where
  "constructor_tag_state =
     \<lparr>currentUser = Some ''users/1'',
      userSetting = None,
      shortcuts = [],
      inboxes = [],
      userMapByName = [],
      userStatsByName =
        [(''users/1'', stats_constructor_alice), (''users/2'', stats_constructor_bob)],
      statsStateId = ''1''\<rparr>"

definition inbox1 :: Inbox where
  "inbox1 = \<lparr>inbox_name = ''inboxes/1'', inbox_rest = ''UNREAD''\<rparr>"

definition inbox9 :: Inbox where
  "inbox9 = \<lparr>inbox_name = ''inboxes/9'', inbox_rest = ''ARCHIVED''\<rparr>"

definition signed_in_state :: LocalState where
  "signed_in_state =
     \<lparr>currentUser = Some ''users/1'',
      userSetting = Some [(''name'', ''users/1''), (''locale'', ''en''), (''appearance'', ''dark'')],
      shortcuts = [],
      inboxes = [inbox1],
      userMapByName = [(''users/1'', alice)],
      userStatsByName = [(''users/1'', stats_alice), (''users/2'', stats_bob)],
      statsStateId = ''1''\<rparr>"

definition remote_down :: remote where
  "remote_down =
     \<lparr>userServiceClient_getUser = (\<lambda>_. Inl (RpcError ''unavailable'')),
      userServiceClient_searchUsers = (\<lambda>_ _. Inl (RpcError ''unavailable'')),
      userServiceClient_listUsers = Inl (RpcError ''unavailable''),
      userServiceClient_updateUser = (\<lambda>_ _. Inl (RpcError ''unavailable'')),
      userServiceClient_deleteUser = (\<lambda>_. Inl (RpcError ''unavailable'')),
      userServiceClient_updateUserSetting = (\<lambda>_ _. Inl (RpcError ''unavailable'')),
      userServiceClient_listAllUserStats = Inl (RpcError ''unavailable''),
      userServiceClient_getUserStats = (\<lambda>_. Inl (RpcError ''unavailable'')),
      userServiceClient_getUserSetting = (\<lambda>_. Inl (RpcError ''unavailable'')),
      shortcutServiceClient_listShortcuts = (\<lambda>_. Inl (RpcError ''unavailable'')),
      inboxServiceClient_listInboxes = (\<lambda>_. Inl (RpcError ''unavailable'')),
      inboxServiceClient_updateInbox = (\<lambda>_ _. Inl (RpcError ''unavailable'')),
      inboxServiceClient_deleteInbox = (\<lambda>_. Inl (RpcError ''unavailable'')),
      authServiceClient_getCurrentSession = Inl (RpcError ''unavailable'')\<rparr>"

definition remote_up :: remote where
  "remote_up =
     \<lparr>userServiceClient_getUser = (\<lambda>name. Inr (bob\<lparr>user_name := name\<rparr>)),
      userServiceClient_searchUsers = (\<lambda>_ _. Inr [alicia]),
      userServiceClient_listUsers = Inr [bob, alicia],
      userServiceClient_updateUser =
        (\<lambda>_ _. Inr \<lparr>user_name = ''users/1'', username = ''alice'', user_rest = ''Alice L.''\<rparr>),
      userServiceClient_deleteUser = (\<lambda>_. Inr ()),
      userServiceClient_updateUserSetting =
        (\<lambda>_ _. Inr [(''name'', ''users/1''), (''locale'', ''fr'')]),
      userServiceClient_listAllUserStats = Inr [stats_alice, stats_bob],
      userServiceClient_getUserStats = (\<lambda>_. Inr stats_alice),
      userServiceClient_getUserSetting =
        (\<lambda>name. Inr [(''name'', name), (''locale'', ''de''), (''appearance'', ''light'')]),
      shortcutServiceClient_listShortcuts = (\<lambda>_. Inr []),
      inboxServiceClient_listInboxes = (\<lambda>_. Inr [inbox1]),
      inboxServiceClient_updateInbox = (\<lambda>_ _. Inr inbox9),
      inboxServiceClient_deleteInbox = (\<lambda>_. Inr ()),
      authServiceClient_getCurrentSession = Inr (Some alice)\<rparr>"

definition remote_no_user :: remote where
  "remote_no_user = remote_up\<lparr>authServiceClient_getCurrentSession := Inr None\<rparr>"

section \<open>Properties\<close>

subsection \<open>Lookups in updated and spread objects\<close>

lemma in_keys_iff: "k \<in> fst ` set al \<longleftrightarrow> map_of al k \<noteq> None"
  by (simp add: map_of_eq_None_iff)

lemma map_of_fold_update:
  "map_of (fold (\<lambda>(k, v). AList.update k v) b a) = map_of a ++ map_of (rev b)"
  by (induction b arbitrary: a)
     (auto simp: update_conv' fun_eq_iff map_add_def split: option.splits)

lemma map_of_spread: "map_of (spread a b) = map_of a ++ map_of (rev b)"
  by (simp add: spread_def map_of_fold_update)

lemma map_of_rev_distinct:
  assumes "distinct (map fst al)"
  shows "map_of (rev al) = map_of al"
proof
  fix k
  have d: "distinct (map fst (rev al))"
    using assms by (simp add: rev_map [symmetric])
  show "map_of (rev al) k = map_of al k"
  proof (cases "map_of al k")
    case None
    then show ?thesis by (metis map_of_eq_None_iff set_rev)
  next
    case (Some v)
    with assms have "(k, v) \<in> set (rev al)" by simp
    with d have "map_of (rev al) k = Some v" by (simp only: map_of_eq_Some_iff)
    with Some show ?thesis by simp
  qed
qed

lemma map_of_spread_absent:
  "k \<notin> fst ` set b \<Longrightarrow> map_of (spread a b) k = map_of a k"
proof -
  assume "k \<notin> fst ` set b"
  then have "map_of (rev b) k = None" by (simp add: map_of_eq_None_iff)
  then show ?thesis by (simp add: map_of_spread map_add_def)
qed

subsection \<open>The tag-count aggregate\<close>

lemma Object_prototype_proto: "map_of Object_prototype ''__proto__'' \<noteq> None"
  by (simp add: Object_prototype_def)

lemma tagCount_add_lookup_other:
  "t \<noteq> tag \<Longrightarrow> map_of (tagCount_add tc tag acc) t = map_of acc t"
  by (simp add: tagCount_add_def set_property_def update_conv')

lemma tagCount_add_lookup_same:
  assumes "map_of Object_prototype t = None"
    and "\<forall>str. map_of acc t \<noteq> Some (Str str)"
  shows "map_of (tagCount_add tc t acc) t =
           Some (Num (num_of (map_of acc t) + the (map_of tc t)))"
proof -
  from assms(1) Object_prototype_proto have ne: "t \<noteq> ''__proto__''" by auto
  show ?thesis
  proof (cases "map_of acc t")
    case None
    with assms(1) ne show ?thesis
      by (simp add: tagCount_add_def set_property_def get_property_def or0_plus_def
                    num_of_def update_conv')
  next
    case (Some v)
    with assms(2) obtain c where "v = Num c" by (cases v) auto
    with Some ne show ?thesis
      by (simp add: tagCount_add_def set_property_def get_property_def or0_plus_def
                    num_of_def update_conv')
  qed
qed

lemma fold_tagCount_add_lookup:
  "distinct ks \<Longrightarrow> map_of Object_prototype t = None \<Longrightarrow>
   \<forall>str. map_of acc t \<noteq> Some (Str str) \<Longrightarrow>
   map_of (fold (tagCount_add tc) ks acc) t =
     (if t \<in> set ks then Some (Num (num_of (map_of acc t) + the (map_of tc t)))
      else map_of acc t)"
proof (induction ks arbitrary: acc)
  case Nil
  show ?case by simp
next
  case (Cons k ks)
  show ?case
  proof (cases "k = t")
    case True
    with Cons.prems have notin: "t \<notin> set ks" by simp
    have same: "map_of (tagCount_add tc t acc) t =
                  Some (Num (num_of (map_of acc t) + the (map_of tc t)))"
      using Cons.prems(2,3) by (rule tagCount_add_lookup_same)
    then have "\<forall>str. map_of (tagCount_add tc t acc) t \<noteq> Some (Str str)" by simp
    with Cons.IH [of "tagCount_add tc t acc"] Cons.prems notin same True
    show ?thesis by simp
  next
    case False
    then have other: "map_of (tagCount_add tc k acc) t = map_of acc t"
      by (simp add: tagCount_add_lookup_other)
    with Cons.prems(3) have "\<forall>str. map_of (tagCount_add tc k acc) t \<noteq> Some (Str str)"
      by simp
    with Cons.IH [of "tagCount_add tc k acc"] Cons.prems other False
    show ?thesis by simp
  qed
qed

lemma tagCount_stats_lookup:
  assumes "distinct (map fst (stats_tagCount stats))"
    and "map_of Object_prototype t = None"
    and "\<forall>str. map_of acc t \<noteq> Some (Str str)"
  shows "map_of (tagCount_stats stats acc) t =
     (case map_of (stats_tagCount stats) t of
        None \<Rightarrow> map_of acc t
      | Some c \<Rightarrow> Some (Num (num_of (map_of acc t) + c)))"
proof (cases "map_of (stats_tagCount stats) t")
  case None
  then have "t \<notin> set (map fst (stats_tagCount stats))"
    by (simp add: map_of_eq_None_iff)
  with assms None show ?thesis
    by (simp add: tagCount_stats_def fold_tagCount_add_lookup)
next
  case (Some c)
  then have "t \<in> set (map fst (stats_tagCount stats))"
    by (metis map_of_eq_None_iff option.distinct(1) set_map)
  with assms Some show ?thesis
    by (simp add: tagCount_stats_def fold_tagCount_add_lookup)
qed

lemma fold_tagCount_stats_lookup:
  "\<forall>stats \<in> set sts. distinct (map fst (stats_tagCount stats)) \<Longrightarrow>
   map_of Object_prototype t = None \<Longrightarrow>
   \<forall>str. map_of acc t \<noteq> Some (Str str) \<Longrightarrow>
   map_of (fold tagCount_stats sts acc) t =
     (if t \<in> fst ` set acc \<or> (\<exists>stats \<in> set sts. t \<in> fst ` set (stats_tagCount stats))
      then Some (Num (num_of (map_of acc t) +
                      (\<Sum>stats \<leftarrow> sts. case map_of (stats_tagCount stats) t of
                                          None \<Rightarrow> 0 | Some c \<Rightarrow> c)))
      else None)"
proof (induction sts arbitrary: acc)
  case Nil
  show ?case
  proof (cases "map_of acc t")
    case None
    then show ?thesis by (simp add: map_of_eq_None_iff)
  next
    case (Some v)
    then have "t \<in> fst ` set acc" by (metis map_of_eq_None_iff option.distinct(1))
    moreover from Some Nil.prems(3) obtain c where "v = Num c" by (cases v) auto
    ultimately show ?thesis using Some by (simp add: num_of_def)
  qed
next
  case (Cons st sts)
  have d: "distinct (map fst (stats_tagCount st))" using Cons.prems(1) by simp
  note look = tagCount_stats_lookup [OF d Cons.prems(2,3)]
  have keys: "t \<in> fst ` set (tagCount_stats st acc) \<longleftrightarrow>
              t \<in> fst ` set acc \<or> t \<in> fst ` set (stats_tagCount st)"
    using look
    by (cases "map_of (stats_tagCount st) t"; cases "map_of acc t")
       (simp_all add: in_keys_iff)
  have nostr: "\<forall>str. map_of (tagCount_stats st acc) t \<noteq> Some (Str str)"
    using look Cons.prems(3) by (cases "map_of (stats_tagCount st) t") simp_all
  have val: "num_of (map_of (tagCount_stats st acc) t) =
             num_of (map_of acc t) +
             (case map_of (stats_tagCount st) t of None \<Rightarrow> 0 | Some c \<Rightarrow> c)"
    using look by (cases "map_of (stats_tagCount st) t") (simp_all add: num_of_def)
  have "\<forall>stats \<in> set sts. distinct (map fst (stats_tagCount stats))"
    using Cons.prems(1) by simp
  from Cons.IH [OF this Cons.prems(2) nostr] show ?case
    by (simp add: keys val add.assoc)
qed

text \<open>
  For a tag that is not the name of a member of \<open>Object.prototype\<close>, reading the
  aggregate gives the sum of the tag's counts over all cached \<open>UserStats\<close> entries, and
  no field when no entry has the tag. Each cached \<open>tagCount\<close> is an object, so its keys
  are distinct.
\<close>

lemma tagCount_sum_unless_inherited:
  assumes "\<forall>stats \<in> set (map snd (userStatsByName state)).
             distinct (map fst (stats_tagCount stats))"
    and "map_of Object_prototype tag = None"
  shows "map_of (tagCount state) tag =
           (if \<exists>stats \<in> set (map snd (userStatsByName state)).
                 tag \<in> fst ` set (stats_tagCount stats)
            then Some (Num (\<Sum>stats \<leftarrow> map snd (userStatsByName state).
                         case map_of (stats_tagCount stats) tag of None \<Rightarrow> 0 | Some c \<Rightarrow> c))
            else None)"
  unfolding tagCount_def
  using fold_tagCount_stats_lookup [of "map snd (userStatsByName state)" tag "[]"] assms
  by (simp add: num_of_def)

lemma tagCount_work_example:
  "map_of (tagCount signed_in_state) ''work'' = Some (Num 5)"
  by (simp add: tagCount_def tagCount_stats_def tagCount_add_def set_property_def
                get_property_def or0_plus_def Object_prototype_def
                signed_in_state_def stats_alice_def stats_bob_def)

text \<open>
  C1. The aggregate is not the field-wise sum in every state of the cache. Two cached
  entries count the tag \<open>constructor\<close> 2 and 3 times, so the sum is 5. The first read of
  \<open>tagCount[tag]\<close> finds the inherited \<open>Object.prototype.constructor\<close>, which is
  truthy, and \<open>+\<close> concatenates: the aggregate holds a string for that tag.
\<close>

theorem tagCount_inherited_member:
  "map_of (tagCount constructor_tag_state) ''constructor'' =
     Some (Str ''function Object() { [native code] }23'')
   \<and> (\<Sum>stats \<leftarrow> map snd (userStatsByName constructor_tag_state).
         case map_of (stats_tagCount stats) ''constructor'' of None \<Rightarrow> 0 | Some c \<Rightarrow> c) = 5
   \<and> map_of (tagCount constructor_tag_state) ''constructor'' \<noteq> Some (Num 5)"
  by (simp add: tagCount_def tagCount_stats_def tagCount_add_def set_property_def
                get_property_def or0_plus_def Object_prototype_def show_int_def
                show_nat.simps constructor_tag_state_def stats_constructor_alice_def
                stats_constructor_bob_def)

subsection \<open>Read-through lookup by name\<close>

text \<open>
  C2. When the name is already a key of the account map, \<open>getOrFetchUserByName\<close>
  returns the cached value, issues no remote call and leaves the state as it was.
\<close>

theorem getOrFetchUserByName_cached:
  assumes "map_of (userMapByName state) n = Some cached"
  shows "getOrFetchUserByName r state n = (Inr cached, state, [])"
  using assms by (simp add: getOrFetchUserByName_def)

theorem getOrFetchUserByName_cached_witness:
  "map_of (userMapByName signed_in_state) ''users/1'' = Some alice
   \<and> getOrFetchUserByName remote_down signed_in_state ''users/1'' = (Inr alice, signed_in_state, [])"
proof -
  have h: "map_of (userMapByName signed_in_state) ''users/1'' = Some alice"
    by (simp add: signed_in_state_def)
  from getOrFetchUserByName_cached [OF h, of remote_down] h show ?thesis by simp
qed

text \<open>
  C7. When the name is not a key of the account map and the fetch succeeds with an
  entity whose own name is the requested one, \<open>getOrFetchUserByName\<close> issues the
  single call \<open>GetUser n\<close>, stores the entity under its own name, returns it, and
  leaves every other key as it was. The key the code writes is the requested name; the
  two agree by the hypothesis \<open>user_name user = n\<close>, which the code does not check.
\<close>

theorem getOrFetchUserByName_miss:
  assumes "map_of (userMapByName state) n = None"
    and "userServiceClient_getUser r n = Inr user"
    and "user_name user = n"
  shows "getOrFetchUserByName r state n =
           (Inr user,
            state\<lparr>userMapByName := AList.update (user_name user) user (userMapByName state)\<rparr>,
            [GetUser n])
         \<and> getUserByName (fst (snd (getOrFetchUserByName r state n))) (user_name user) = Some user
         \<and> (\<forall>m. m \<noteq> n \<longrightarrow>
               getUserByName (fst (snd (getOrFetchUserByName r state n))) m = getUserByName state m)"
  using assms by (simp add: getOrFetchUserByName_def getUserByName_def update_conv')

theorem getOrFetchUserByName_miss_witness:
  "map_of (userMapByName signed_in_state) ''users/2'' = None
   \<and> userServiceClient_getUser remote_up ''users/2'' = Inr bob
   \<and> user_name bob = ''users/2''
   \<and> getOrFetchUserByName remote_up signed_in_state ''users/2'' =
       (Inr bob,
        signed_in_state\<lparr>userMapByName := [(''users/1'', alice), (''users/2'', bob)]\<rparr>,
        [GetUser ''users/2''])"
proof -
  have h1: "map_of (userMapByName signed_in_state) ''users/2'' = None"
    by (simp add: signed_in_state_def)
  have h2: "userServiceClient_getUser remote_up ''users/2'' = Inr bob"
    by (simp add: remote_up_def bob_def)
  have h3: "user_name bob = ''users/2''"
    by (simp add: bob_def)
  from getOrFetchUserByName_miss [OF h1 h2 h3, THEN conjunct1] h1 h2 h3 show ?thesis
    by (simp add: signed_in_state_def bob_def)
qed

subsection \<open>Lookup by username\<close>

lemma cached_by_username_None:
  assumes "\<forall>u \<in> set (map snd userMap). username u \<noteq> uname"
  shows "cached_by_username userMap uname = None"
proof -
  have "List.find (\<lambda>name. case map_of userMap name of None \<Rightarrow> False
                           | Some u \<Rightarrow> username u = uname) (map fst userMap) = None"
    unfolding find_None_iff
  proof (intro notI, elim exE conjE)
    fix name
    assume "case map_of userMap name of None \<Rightarrow> False | Some u \<Rightarrow> username u = uname"
    then obtain u where u: "map_of userMap name = Some u" "username u = uname"
      by (auto split: option.splits)
    from u(1) have "(name, u) \<in> set userMap" by (rule map_of_SomeD)
    then have "u \<in> set (map snd userMap)" by force
    with assms u(2) show False by blast
  qed
  then show ?thesis by (simp add: cached_by_username_def)
qed

text \<open>
  C9. When no cached account has the username and the search, issued with page size
  10, succeeds without an exact match among its results, \<open>getOrFetchUserByUsername\<close>
  fails with the locally built error \<open>User with username ... not found\<close> and leaves
  the state as it was.
\<close>

theorem getOrFetchUserByUsername_no_exact_match:
  assumes "\<forall>u \<in> set (map snd (userMapByName state)). username u \<noteq> uname"
    and "userServiceClient_searchUsers r uname 10 = Inr users"
    and "\<forall>u \<in> set users. username u \<noteq> uname"
  shows "getOrFetchUserByUsername r state uname =
           (Inl (Error (''User with username '' @ uname @ '' not found'')),
            state, [SearchUsers uname 10])"
proof -
  have "cached_by_username (userMapByName state) uname = None"
    using assms(1) by (rule cached_by_username_None)
  moreover have "List.find (\<lambda>u. username u = uname) users = None"
    using assms(3) by (simp add: find_None_iff)
  ultimately show ?thesis
    using assms(2) by (simp add: getOrFetchUserByUsername_def)
qed

theorem getOrFetchUserByUsername_no_exact_match_witness:
  "list_all (\<lambda>u. username u \<noteq> ''ali'') (map snd (userMapByName signed_in_state))
   \<and> userServiceClient_searchUsers remote_up ''ali'' 10 = Inr [alicia]
   \<and> list_all (\<lambda>u. username u \<noteq> ''ali'') [alicia]
   \<and> getOrFetchUserByUsername remote_up signed_in_state ''ali'' =
       (Inl (Error ''User with username ali not found''), signed_in_state,
        [SearchUsers ''ali'' 10])"
proof -
  have h1: "\<forall>u \<in> set (map snd (userMapByName signed_in_state)). username u \<noteq> ''ali''"
    by (simp add: signed_in_state_def alice_def)
  have h2: "userServiceClient_searchUsers remote_up ''ali'' 10 = Inr [alicia]"
    by (simp add: remote_up_def)
  have h3: "\<forall>u \<in> set [alicia]. username u \<noteq> ''ali''"
    by (simp add: alicia_def)
  from getOrFetchUserByUsername_no_exact_match [OF h1 h2 h3] h1 h2 h3 show ?thesis
    by (simp add: list_all_iff)
qed

subsection \<open>Bulk refresh\<close>

lemma find_snoc:
  "List.find P (xs @ [y]) =
     (case List.find P xs of None \<Rightarrow> (if P y then Some y else None) | Some x \<Rightarrow> Some x)"
  by (induction xs) simp_all

lemma map_of_fold_insert_users:
  "map_of (fold (\<lambda>user m. AList.update (user_name user) user m) users userMap) n =
     (case List.find (\<lambda>u. user_name u = n) (rev users) of
        None \<Rightarrow> map_of userMap n
      | Some u \<Rightarrow> Some u)"
proof (induction users arbitrary: userMap)
  case Nil
  show ?case by simp
next
  case (Cons u users)
  show ?case
    by (simp add: Cons.IH find_snoc update_conv' split: option.splits)
qed

lemma find_user_name:
  "List.find (\<lambda>u. user_name u = n) us = Some u \<Longrightarrow> u \<in> set us \<and> user_name u = n"
  by (induction us) (auto split: if_splits)

text \<open>
  C6. After a successful \<open>fetchUsers\<close>, the account map holds under every name
  the last returned entity of that name, and, for a name that no returned entity has,
  exactly what it held before: no entry is removed. Every returned name is a key whose
  value is a returned entity of that name; when the returned names are distinct, every
  returned entity is retrievable under its own name.
\<close>

theorem fetchUsers_additive_merge:
  assumes "userServiceClient_listUsers r = Inr users"
  shows "fst (fetchUsers r state) = Inr users
         \<and> snd (snd (fetchUsers r state)) = [ListUsers]
         \<and> (\<forall>n. getUserByName (fst (snd (fetchUsers r state))) n =
                  (case List.find (\<lambda>u. user_name u = n) (rev users) of
                     None \<Rightarrow> getUserByName state n
                   | Some u \<Rightarrow> Some u))
         \<and> (\<forall>n. n \<notin> user_name ` set users \<longrightarrow>
                  getUserByName (fst (snd (fetchUsers r state))) n = getUserByName state n)
         \<and> (\<forall>u \<in> set users. \<exists>u' \<in> set users. user_name u' = user_name u \<and>
                  getUserByName (fst (snd (fetchUsers r state))) (user_name u) = Some u')
         \<and> (distinct (map user_name users) \<longrightarrow>
              (\<forall>u \<in> set users.
                  getUserByName (fst (snd (fetchUsers r state))) (user_name u) = Some u))"
proof -
  let ?s' = "fst (snd (fetchUsers r state))"
  have look: "getUserByName ?s' n =
                (case List.find (\<lambda>u. user_name u = n) (rev users) of
                   None \<Rightarrow> getUserByName state n
                 | Some u \<Rightarrow> Some u)" for n
    using assms
    by (simp add: fetchUsers_def getUserByName_def map_of_fold_insert_users
             cong: option.case_cong)
  have absent: "getUserByName ?s' n = getUserByName state n" if "n \<notin> user_name ` set users" for n
  proof -
    from that have "List.find (\<lambda>u. user_name u = n) (rev users) = None"
      by (auto simp: find_None_iff)
    then show ?thesis by (simp add: look)
  qed
  have present: "\<exists>u' \<in> set users. user_name u' = user_name u \<and>
                   getUserByName ?s' (user_name u) = Some u'" if "u \<in> set users" for u
  proof -
    from that have "List.find (\<lambda>x. user_name x = user_name u) (rev users) \<noteq> None"
      by (auto simp: find_None_iff)
    then obtain u' where f: "List.find (\<lambda>x. user_name x = user_name u) (rev users) = Some u'"
      by blast
    from find_user_name [OF f] have "u' \<in> set users" "user_name u' = user_name u" by simp_all
    moreover from f have "getUserByName ?s' (user_name u) = Some u'" by (simp add: look)
    ultimately show ?thesis by blast
  qed
  have dist: "getUserByName ?s' (user_name u) = Some u"
    if "distinct (map user_name users)" "u \<in> set users" for u
  proof -
    from present [OF that(2)] obtain u' where u': "u' \<in> set users"
      "user_name u' = user_name u" "getUserByName ?s' (user_name u) = Some u'" by blast
    from that u'(1,2) have "u' = u"
      by (meson distinct_map inj_onD)
    with u'(3) show ?thesis by simp
  qed
  from assms have "fst (fetchUsers r state) = Inr users"
    and "snd (snd (fetchUsers r state)) = [ListUsers]"
    by (simp_all add: fetchUsers_def)
  with look absent present dist show ?thesis by blast
qed

theorem fetchUsers_additive_merge_witness:
  "userServiceClient_listUsers remote_up = Inr [bob, alicia]
   \<and> getUserByName (fst (snd (fetchUsers remote_up signed_in_state))) ''users/1'' = Some alice
   \<and> getUserByName (fst (snd (fetchUsers remote_up signed_in_state))) ''users/2'' = Some bob
   \<and> getUserByName (fst (snd (fetchUsers remote_up signed_in_state))) ''users/7'' = Some alicia"
proof -
  have h: "userServiceClient_listUsers remote_up = Inr [bob, alicia]"
    by (simp add: remote_up_def)
  note t = fetchUsers_additive_merge [OF h, of signed_in_state, THEN conjunct2, THEN conjunct2,
             THEN conjunct1]
  have "getUserByName signed_in_state ''users/1'' = Some alice"
    by (simp add: getUserByName_def signed_in_state_def)
  with t [rule_format, of "''users/1''"] t [rule_format, of "''users/2''"]
       t [rule_format, of "''users/7''"] h
  show ?thesis by (simp add: bob_def alicia_def)
qed

subsection \<open>Mutation with merge-back\<close>

text \<open>
  C8. After a successful \<open>updateUser\<close>, \<open>getUserByName\<close> at the response's name
  returns the response, whatever partial user the caller supplied; the other keys are
  as before.
\<close>

theorem updateUser_stores_response:
  assumes "userServiceClient_updateUser r user updateMask = Inr updatedUser"
  shows "fst (updateUser r state user updateMask) = Inr ()
         \<and> getUserByName (fst (snd (updateUser r state user updateMask))) (user_name updatedUser)
             = Some updatedUser
         \<and> (\<forall>m. m \<noteq> user_name updatedUser \<longrightarrow>
               getUserByName (fst (snd (updateUser r state user updateMask))) m
                 = getUserByName state m)
         \<and> snd (snd (updateUser r state user updateMask)) = [UpdateUser user updateMask]"
  using assms by (simp add: updateUser_def getUserByName_def update_conv')

theorem updateUser_stores_response_witness:
  "userServiceClient_updateUser remote_up [(''username'', ''al'')] [''username'']
     = Inr \<lparr>user_name = ''users/1'', username = ''alice'', user_rest = ''Alice L.''\<rparr>
   \<and> getUserByName
        (fst (snd (updateUser remote_up signed_in_state [(''username'', ''al'')] [''username''])))
        ''users/1''
       = Some \<lparr>user_name = ''users/1'', username = ''alice'', user_rest = ''Alice L.''\<rparr>"
proof -
  have h: "userServiceClient_updateUser remote_up [(''username'', ''al'')] [''username'']
     = Inr \<lparr>user_name = ''users/1'', username = ''alice'', user_rest = ''Alice L.''\<rparr>"
    by (simp add: remote_up_def)
  from updateUser_stores_response [OF h, of signed_in_state, THEN conjunct2, THEN conjunct1] h
  show ?thesis by simp
qed

text \<open>
  C5. On a successful \<open>updateUserSetting\<close> the request carries the current
  account's name in its \<open>name\<close> field, whatever the caller supplied, and the stored
  settings are \<open>fromPartial\<close> of the prior settings overlaid with the response: a
  field of the prior settings that the response omits keeps its value, and every field
  of the response is taken. \<open>fromPartial\<close>, the generated normaliser, is assumed to
  keep every field its argument has; the prior settings, when there are any, are an
  object (distinct keys).
\<close>

theorem updateUserSetting_forced_name_fieldwise_merge:
  assumes "\<not> falsy (currentUser state)"
    and "userServiceClient_updateUserSetting r
           (AList.update ''name'' (the (currentUser state)) setting) updateMask = Inr response"
    and "\<forall>obj f v. map_of obj f = Some v \<longrightarrow> map_of (fromPartial obj) f = Some v"
    and "\<forall>prior. userSetting state = Some prior \<longrightarrow> distinct (map fst prior)"
  shows "fst (updateUserSetting r fromPartial state setting updateMask) = Inr ()
         \<and> (\<exists>sent. snd (snd (updateUserSetting r fromPartial state setting updateMask)) =
                      [UpdateUserSetting sent updateMask]
                    \<and> map_of sent ''name'' = currentUser state)
         \<and> (\<exists>merged.
               userSetting (fst (snd (updateUserSetting r fromPartial state setting updateMask)))
                 = Some merged
               \<and> (\<forall>prior f v. userSetting state = Some prior \<and> map_of prior f = Some v
                                \<and> f \<notin> fst ` set response
                          \<longrightarrow> map_of merged f = Some v)
               \<and> (\<forall>f v. map_of (rev response) f = Some v \<longrightarrow> map_of merged f = Some v))"
proof -
  let ?sent = "AList.update ''name'' (the (currentUser state)) setting"
  let ?old = "case userSetting state of None \<Rightarrow> [] | Some us \<Rightarrow> us"
  let ?obj = "spread (spread [] ?old) response"
  from assms(1) obtain cu where cu: "currentUser state = Some cu"
    by (auto simp: falsy_def split: option.splits)
  have res: "updateUserSetting r fromPartial state setting updateMask =
          (Inr (), state\<lparr>userSetting := Some (fromPartial ?obj)\<rparr>,
           [UpdateUserSetting ?sent updateMask])"
    using assms(1,2) by (simp add: updateUserSetting_def)
  have name: "map_of ?sent ''name'' = currentUser state"
    by (simp add: cu update_conv')
  have keep: "map_of (fromPartial ?obj) f = Some v"
    if "userSetting state = Some prior" "map_of prior f = Some v" "f \<notin> fst ` set response"
    for prior f v
  proof -
    from that(1) assms(4) have d: "distinct (map fst prior)" by blast
    have "map_of ?obj f = map_of (spread [] ?old) f"
      using that(3) by (rule map_of_spread_absent)
    also have "\<dots> = map_of prior f"
      by (simp add: that(1) map_of_spread map_of_rev_distinct [OF d])
    finally have "map_of ?obj f = Some v" using that(2) by simp
    with assms(3) show ?thesis by blast
  qed
  have new: "map_of (fromPartial ?obj) f = Some v" if "map_of (rev response) f = Some v" for f v
  proof -
    from that have "map_of ?obj f = Some v" by (simp add: map_of_spread)
    with assms(3) show ?thesis by blast
  qed
  have "\<forall>prior f v. userSetting state = Some prior \<and> map_of prior f = Some v
                      \<and> f \<notin> fst ` set response
          \<longrightarrow> map_of (fromPartial ?obj) f = Some v"
    using keep by blast
  moreover have "\<forall>f v. map_of (rev response) f = Some v
                   \<longrightarrow> map_of (fromPartial ?obj) f = Some v"
    using new by blast
  ultimately show ?thesis using res name by simp
qed

theorem updateUserSetting_forced_name_fieldwise_merge_witness:
  "\<not> falsy (currentUser signed_in_state)
   \<and> userServiceClient_updateUserSetting remote_up
        (AList.update ''name'' (the (currentUser signed_in_state))
           [(''name'', ''users/666''), (''locale'', ''fr'')]) [''locale'']
       = Inr [(''name'', ''users/1''), (''locale'', ''fr'')]
   \<and> (\<forall>obj :: fields. (\<lambda>x. x) obj = obj)
   \<and> userSetting signed_in_state =
       Some [(''name'', ''users/1''), (''locale'', ''en''), (''appearance'', ''dark'')]
   \<and> distinct (map fst [(''name'', ''users/1''), (''locale'', ''en''), (''appearance'', ''dark'')])
   \<and> updateUserSetting remote_up (\<lambda>x. x) signed_in_state
        [(''name'', ''users/666''), (''locale'', ''fr'')] [''locale'']
       = (Inr (),
          signed_in_state\<lparr>userSetting :=
            Some [(''name'', ''users/1''), (''locale'', ''fr''), (''appearance'', ''dark'')]\<rparr>,
          [UpdateUserSetting [(''name'', ''users/1''), (''locale'', ''fr'')] [''locale'']])"
proof -
  have h1: "\<not> falsy (currentUser signed_in_state)"
    by (simp add: falsy_def signed_in_state_def)
  have h2: "userServiceClient_updateUserSetting remote_up
        (AList.update ''name'' (the (currentUser signed_in_state))
           [(''name'', ''users/666''), (''locale'', ''fr'')]) [''locale'']
       = Inr [(''name'', ''users/1''), (''locale'', ''fr'')]"
    by (simp add: remote_up_def)
  have h3: "\<forall>obj f v. map_of obj f = Some v \<longrightarrow> map_of ((\<lambda>x. x) obj) f = Some (v::string)"
    by simp
  have h4: "\<forall>prior. userSetting signed_in_state = Some prior \<longrightarrow> distinct (map fst prior)"
    by (simp add: signed_in_state_def)
  have ev: "updateUserSetting remote_up (\<lambda>x. x) signed_in_state
        [(''name'', ''users/666''), (''locale'', ''fr'')] [''locale'']
       = (Inr (),
          signed_in_state\<lparr>userSetting :=
            Some [(''name'', ''users/1''), (''locale'', ''fr''), (''appearance'', ''dark'')]\<rparr>,
          [UpdateUserSetting [(''name'', ''users/1''), (''locale'', ''fr'')] [''locale'']])"
    by (simp add: updateUserSetting_def falsy_def signed_in_state_def remote_up_def spread_def)
  have h5: "userSetting signed_in_state =
       Some [(''name'', ''users/1''), (''locale'', ''en''), (''appearance'', ''dark'')]"
    by (simp add: signed_in_state_def)
  from updateUserSetting_forced_name_fieldwise_merge [OF h1 h2 h3 h4] h1 h2 h5 ev
  show ?thesis by simp
qed

text \<open>
  C10. When \<open>updateInbox\<close> succeeds and no cached inbox has the response's name,
  the state, and with it the cached inbox sequence, is unchanged and the response is
  returned: the response is not inserted.
\<close>

theorem updateInbox_unmatched_response:
  assumes "inboxServiceClient_updateInbox r inbox updateMask = Inr updatedInbox"
    and "\<forall>i \<in> set (inboxes state). inbox_name i \<noteq> inbox_name updatedInbox"
  shows "updateInbox r state inbox updateMask =
           (Inr updatedInbox, state, [UpdateInbox inbox updateMask])"
proof -
  have "map (\<lambda>i. if inbox_name i = inbox_name updatedInbox then updatedInbox else i)
            (inboxes state) = inboxes state"
    using assms(2) by (induction "inboxes state") (simp_all add: map_idI)
  with assms(1) show ?thesis by (simp add: updateInbox_def)
qed

theorem updateInbox_unmatched_response_witness:
  "inboxServiceClient_updateInbox remote_up [(''status'', ''ARCHIVED'')] [''status''] = Inr inbox9
   \<and> list_all (\<lambda>i. inbox_name i \<noteq> inbox_name inbox9) (inboxes signed_in_state)
   \<and> updateInbox remote_up signed_in_state [(''status'', ''ARCHIVED'')] [''status''] =
       (Inr inbox9, signed_in_state, [UpdateInbox [(''status'', ''ARCHIVED'')] [''status'']])
   \<and> inbox9 \<notin> set (inboxes signed_in_state)"
proof -
  have h1: "inboxServiceClient_updateInbox remote_up [(''status'', ''ARCHIVED'')] [''status'']
              = Inr inbox9"
    by (simp add: remote_up_def)
  have h2: "\<forall>i \<in> set (inboxes signed_in_state). inbox_name i \<noteq> inbox_name inbox9"
    by (simp add: signed_in_state_def inbox1_def inbox9_def)
  have h3: "inbox9 \<notin> set (inboxes signed_in_state)"
    by (simp add: signed_in_state_def inbox1_def inbox9_def)
  from updateInbox_unmatched_response [OF h1 h2] h1 h2 h3 show ?thesis
    by (simp add: list_all_iff)
qed

subsection \<open>Remote failures\<close>

text \<open>
  C4. For each operation that issues a remote call: when that call throws \<open>e\<close>, the
  operation throws the same \<open>e\<close> and the state is the state before the call. After
  a failed \<open>deleteUser\<close> the value at the key is still retrievable. The operations
  that check for a current user first issue their call only when there is one.
\<close>

theorem remote_failure_leaves_state:
  "(map_of (userMapByName state) n = None \<and> userServiceClient_getUser r n = Inl e \<longrightarrow>
      getOrFetchUserByName r state n = (Inl e, state, [GetUser n]))
   \<and> (cached_by_username (userMapByName state) uname = None
        \<and> userServiceClient_searchUsers r uname 10 = Inl e \<longrightarrow>
      getOrFetchUserByUsername r state uname = (Inl e, state, [SearchUsers uname 10]))
   \<and> (userServiceClient_listUsers r = Inl e \<longrightarrow>
      fetchUsers r state = (Inl e, state, [ListUsers]))
   \<and> (userServiceClient_updateUser r user updateMask = Inl e \<longrightarrow>
      updateUser r state user updateMask = (Inl e, state, [UpdateUser user updateMask]))
   \<and> (userServiceClient_deleteUser r name = Inl e \<longrightarrow>
      deleteUser r state name = (Inl e, state, [DeleteUser name])
      \<and> getUserByName (fst (snd (deleteUser r state name))) name = getUserByName state name)
   \<and> (\<not> falsy (currentUser state)
        \<and> userServiceClient_updateUserSetting r
             (AList.update ''name'' (the (currentUser state)) setting) updateMask = Inl e \<longrightarrow>
      updateUserSetting r fromPartial state setting updateMask =
        (Inl e, state,
         [UpdateUserSetting (AList.update ''name'' (the (currentUser state)) setting) updateMask]))
   \<and> (\<not> falsy (currentUser state)
        \<and> shortcutServiceClient_listShortcuts r (the (currentUser state)) = Inl e \<longrightarrow>
      fetchShortcuts r state = (Inl e, state, [ListShortcuts (the (currentUser state))]))
   \<and> (\<not> falsy (currentUser state)
        \<and> inboxServiceClient_listInboxes r (the (currentUser state)) = Inl e \<longrightarrow>
      fetchInboxes r state = (Inl e, state, [ListInboxes (the (currentUser state))]))
   \<and> (inboxServiceClient_updateInbox r inbox updateMask = Inl e \<longrightarrow>
      updateInbox r state inbox updateMask = (Inl e, state, [UpdateInbox inbox updateMask]))
   \<and> (inboxServiceClient_deleteInbox r inboxName = Inl e \<longrightarrow>
      deleteInbox r state inboxName = (Inl e, state, [DeleteInbox inboxName]))
   \<and> (falsy statsUser \<and> userServiceClient_listAllUserStats r = Inl e \<longrightarrow>
      fetchUserStats r state statsUser = (Inl e, state, [ListAllUserStats]))
   \<and> (\<not> falsy statsUser \<and> userServiceClient_getUserStats r (the statsUser) = Inl e \<longrightarrow>
      fetchUserStats r state statsUser = (Inl e, state, [GetUserStats (the statsUser)]))"
proof -
  have c1: "map_of (userMapByName state) n = None \<and> userServiceClient_getUser r n = Inl e \<longrightarrow>
      getOrFetchUserByName r state n = (Inl e, state, [GetUser n])"
    by (simp add: getOrFetchUserByName_def)
  have c2: "cached_by_username (userMapByName state) uname = None
        \<and> userServiceClient_searchUsers r uname 10 = Inl e \<longrightarrow>
      getOrFetchUserByUsername r state uname = (Inl e, state, [SearchUsers uname 10])"
    by (simp add: getOrFetchUserByUsername_def)
  have c3: "userServiceClient_listUsers r = Inl e \<longrightarrow>
      fetchUsers r state = (Inl e, state, [ListUsers])"
    by (simp add: fetchUsers_def)
  have c4: "userServiceClient_updateUser r user updateMask = Inl e \<longrightarrow>
      updateUser r state user updateMask = (Inl e, state, [UpdateUser user updateMask])"
    by (simp add: updateUser_def)
  have c5: "userServiceClient_deleteUser r name = Inl e \<longrightarrow>
      deleteUser r state name = (Inl e, state, [DeleteUser name])
      \<and> getUserByName (fst (snd (deleteUser r state name))) name = getUserByName state name"
    by (simp add: deleteUser_def)
  have c6: "\<not> falsy (currentUser state)
        \<and> userServiceClient_updateUserSetting r
             (AList.update ''name'' (the (currentUser state)) setting) updateMask = Inl e \<longrightarrow>
      updateUserSetting r fromPartial state setting updateMask =
        (Inl e, state,
         [UpdateUserSetting (AList.update ''name'' (the (currentUser state)) setting) updateMask])"
    by (simp add: updateUserSetting_def)
  have c7: "\<not> falsy (currentUser state)
        \<and> shortcutServiceClient_listShortcuts r (the (currentUser state)) = Inl e \<longrightarrow>
      fetchShortcuts r state = (Inl e, state, [ListShortcuts (the (currentUser state))])"
    by (simp add: fetchShortcuts_def)
  have c8: "\<not> falsy (currentUser state)
        \<and> inboxServiceClient_listInboxes r (the (currentUser state)) = Inl e \<longrightarrow>
      fetchInboxes r state = (Inl e, state, [ListInboxes (the (currentUser state))])"
    by (simp add: fetchInboxes_def)
  have c9: "inboxServiceClient_updateInbox r inbox updateMask = Inl e \<longrightarrow>
      updateInbox r state inbox updateMask = (Inl e, state, [UpdateInbox inbox updateMask])"
    by (simp add: updateInbox_def)
  have c10: "inboxServiceClient_deleteInbox r inboxName = Inl e \<longrightarrow>
      deleteInbox r state inboxName = (Inl e, state, [DeleteInbox inboxName])"
    by (simp add: deleteInbox_def)
  have c11: "falsy statsUser \<and> userServiceClient_listAllUserStats r = Inl e \<longrightarrow>
      fetchUserStats r state statsUser = (Inl e, state, [ListAllUserStats])"
    by (simp add: fetchUserStats_def)
  have c12: "\<not> falsy statsUser \<and> userServiceClient_getUserStats r (the statsUser) = Inl e \<longrightarrow>
      fetchUserStats r state statsUser = (Inl e, state, [GetUserStats (the statsUser)])"
    by (simp add: fetchUserStats_def)
  show ?thesis
    by (intro conjI) (rule c1 c2 c3 c4 c5 c6 c7 c8 c9 c10 c11 c12)+
qed

theorem remote_failure_leaves_state_witness:
  "getOrFetchUserByName remote_down signed_in_state ''users/2'' =
     (Inl (RpcError ''unavailable''), signed_in_state, [GetUser ''users/2''])
   \<and> getOrFetchUserByUsername remote_down signed_in_state ''bob'' =
     (Inl (RpcError ''unavailable''), signed_in_state, [SearchUsers ''bob'' 10])
   \<and> fetchUsers remote_down signed_in_state =
     (Inl (RpcError ''unavailable''), signed_in_state, [ListUsers])
   \<and> updateUser remote_down signed_in_state [(''username'', ''al'')] [''username''] =
     (Inl (RpcError ''unavailable''), signed_in_state,
      [UpdateUser [(''username'', ''al'')] [''username'']])
   \<and> deleteUser remote_down signed_in_state ''users/1'' =
     (Inl (RpcError ''unavailable''), signed_in_state, [DeleteUser ''users/1''])
   \<and> getUserByName (fst (snd (deleteUser remote_down signed_in_state ''users/1''))) ''users/1''
       = Some alice
   \<and> updateUserSetting remote_down (\<lambda>x. x) signed_in_state [(''locale'', ''fr'')] [''username''] =
     (Inl (RpcError ''unavailable''), signed_in_state,
      [UpdateUserSetting [(''locale'', ''fr''), (''name'', ''users/1'')] [''username'']])
   \<and> fetchShortcuts remote_down signed_in_state =
     (Inl (RpcError ''unavailable''), signed_in_state, [ListShortcuts ''users/1''])
   \<and> fetchInboxes remote_down signed_in_state =
     (Inl (RpcError ''unavailable''), signed_in_state, [ListInboxes ''users/1''])
   \<and> updateInbox remote_down signed_in_state [(''username'', ''al'')] [''username''] =
     (Inl (RpcError ''unavailable''), signed_in_state,
      [UpdateInbox [(''username'', ''al'')] [''username'']])
   \<and> deleteInbox remote_down signed_in_state ''inboxes/1'' =
     (Inl (RpcError ''unavailable''), signed_in_state, [DeleteInbox ''inboxes/1''])
   \<and> fetchUserStats remote_down signed_in_state None =
     (Inl (RpcError ''unavailable''), signed_in_state, [ListAllUserStats])
   \<and> fetchUserStats remote_down signed_in_state (Some ''users/1'') =
     (Inl (RpcError ''unavailable''), signed_in_state, [GetUserStats ''users/1''])"
proof -
  note all = remote_failure_leaves_state
    [where r = remote_down and state = signed_in_state and e = "RpcError ''unavailable''"
       and n = "''users/2''" and uname = "''bob''" and user = "[(''username'', ''al'')]"
       and updateMask = "[''username'']" and name = "''users/1''"
       and setting = "[(''locale'', ''fr'')]" and fromPartial = "\<lambda>x. x"
       and inbox = "[(''username'', ''al'')]" and inboxName = "''inboxes/1''"]
  have cur: "currentUser signed_in_state = Some ''users/1''"
    by (simp add: signed_in_state_def)
  have miss: "map_of (userMapByName signed_in_state) ''users/2'' = None"
    by (simp add: signed_in_state_def)
  have scan: "cached_by_username (userMapByName signed_in_state) ''bob'' = None"
    by (simp add: cached_by_username_def signed_in_state_def alice_def)
  have kept: "getUserByName signed_in_state ''users/1'' = Some alice"
    by (simp add: getUserByName_def signed_in_state_def)
  from all [where statsUser = None] all [where statsUser = "Some ''users/1''"]
  show ?thesis
    by (simp add: cur miss scan kept falsy_def remote_down_def)
qed

subsection \<open>Session bootstrap\<close>

text \<open>
  When \<open>getCurrentSession\<close> throws, the failure path assigns nothing to the user
  store, whatever the state: no field set by the failed path is exposed, and the only
  patch sent to the workspace store is the single field \<open>locale\<close>, the result of
  \<open>findNearestMatchedLanguage\<close> on \<open>navigator.language\<close>.
\<close>

lemma initialUserStore_throws_state_unchanged:
  "authServiceClient_getCurrentSession r = Inl e \<Longrightarrow>
   initialUserStore r fromPartial findNearestMatchedLanguage navigator_language state =
     (state,
      [[(''locale'', Some (findNearestMatchedLanguage navigator_language))]],
      [GetCurrentSession])"
  by (simp add: initialUserStore_def locale_fallback_def)

text \<open>
  C3. The resulting state does not have the current-account marker and the settings
  absent after every failed bootstrap. Called on a state that has a current account and
  settings, with \<open>getCurrentSession\<close> throwing, \<open>initialUserStore\<close> leaves both in
  place and sends only the fallback locale outward. On the same state the branch for a
  session without a user clears the marker, the settings and the account map.
\<close>

theorem initialUserStore_session_throws_keeps_marker:
  "authServiceClient_getCurrentSession remote_down = Inl (RpcError ''unavailable'')
   \<and> initialUserStore remote_down (\<lambda>x. x) (\<lambda>_. ''en'') ''en-US'' signed_in_state =
       (signed_in_state, [[(''locale'', Some ''en'')]], [GetCurrentSession])
   \<and> currentUser (fst (initialUserStore remote_down (\<lambda>x. x) (\<lambda>_. ''en'') ''en-US''
                          signed_in_state)) = Some ''users/1''
   \<and> userSetting (fst (initialUserStore remote_down (\<lambda>x. x) (\<lambda>_. ''en'') ''en-US''
                          signed_in_state))
       = Some [(''name'', ''users/1''), (''locale'', ''en''), (''appearance'', ''dark'')]
   \<and> authServiceClient_getCurrentSession remote_no_user = Inr None
   \<and> initialUserStore remote_no_user (\<lambda>x. x) (\<lambda>_. ''en'') ''en-US'' signed_in_state =
       (signed_in_state\<lparr>currentUser := None, userSetting := None, userMapByName := []\<rparr>,
        [], [GetCurrentSession])"
  by (simp add: initialUserStore_def locale_fallback_def remote_down_def remote_no_user_def
                remote_up_def signed_in_state_def)

end
